theory Spec2Isabelle
  imports Main "HOL-Library.Sublist"
begin

section \<open>The data of traviconda.py\<close>

text \<open>
  The script glues external processes together. Text is modelled as \<open>string\<close> (the
  byte strings of the Python 2 the script was written for), a command as the list of its
  tokens. \<open>subprocess.CalledProcessError\<close> is a record of its three attributes; the
  \<open>output\<close> attribute is \<open>None\<close> unless the raising function captured the output.
\<close>

record called_process_error =
  returncode :: int
  cmd :: "string list"
  "output" :: "string option"

text \<open>
  The exceptions that can leave the functions of the script. \<open>OSError\<close> (with its errno)
  is what \<open>subprocess\<close> raises when the child cannot be started at all; \<open>TypeError\<close> is
  raised when a token of a command is \<open>None\<close>; \<open>KeyError\<close> by \<open>os.environ[...]\<close> on an
  absent variable; \<open>NameError\<close> by reading an unbound global; \<open>ValueError\<close> by the entry
  point.
\<close>

datatype error =
    CalledProcessError called_process_error
  | OSError int
  | TypeError
  | KeyError string
  | NameError string
  | ValueError string

text \<open>
  The operating system is a parameter: running a token list in a world either fails to
  start the child (\<open>Not_started errno\<close>) or lets it run to its exit code, with the text
  the child wrote to its standard output and standard error, merged (both partials of the
  script pass \<open>stderr=subprocess.STDOUT\<close>). The world after the run is returned, so a later
  command may depend on what an earlier one did.
\<close>

datatype outcome = Exited int string | Not_started int

type_synonym 'w process = "string list \<Rightarrow> 'w \<Rightarrow> outcome \<times> 'w"

text \<open>
  Every call of a \<open>subprocess\<close> function is recorded with its command, in the order
  of the calls: \<open>co\<close> is \<open>check_output\<close>, \<open>check\<close> is \<open>check_call\<close>.
\<close>

datatype call = Check_output "string list" | Check_call "string list"

record 'w state =
  world :: 'w
  stdout :: "string list"
  calls :: "call list"

text \<open>The parsed command line, \<open>ns\<close> in the script; an option that was not given is \<open>None\<close>.\<close>

record namespace =
  ns_mode :: string
  ns_url :: "string option"
  ns_channel :: "string option"
  ns_path :: "string option"
  ns_user :: "string option"
  ns_key :: "string option"

section \<open>Printing and formatting\<close>

text \<open>
  One entry of \<open>stdout\<close> is the text of one \<open>print\<close> call, or what a child that
  inherited the standard output wrote there (see \<open>check\<close> below).
\<close>

definition print :: "string \<Rightarrow> 'w state \<Rightarrow> 'w state" where
  "print line s = s\<lparr>stdout := stdout s @ [line]\<rparr>"

text \<open>\<open>'{}'.format(x)\<close> for an \<open>x\<close> that is a string or \<open>None\<close>, and for a boolean.\<close>

definition format_opt :: "string option \<Rightarrow> string" where
  "format_opt x = (case x of None \<Rightarrow> ''None'' | Some t \<Rightarrow> t)"

definition format_bool :: "bool \<Rightarrow> string" where
  "format_bool b = (if b then ''True'' else ''False'')"

text \<open>\<open>sep.join(xs)\<close>\<close>

fun join :: "string \<Rightarrow> string list \<Rightarrow> string" where
  "join sep [] = []"
| "join sep [x] = x"
| "join sep (x # y # ys) = x @ sep @ join sep (y # ys)"

section \<open>Paths\<close>

text \<open>
  \<open>posixpath.expanduser\<close> on a path that starts with \<open>~/\<close>: the home directory (the value
  of \<open>HOME\<close>, or the password database entry, taken here as the parameter \<open>home\<close>) loses
  its trailing slashes and replaces the tilde. \<open>posixpath.join\<close> of two components.
\<close>

definition rstrip_slash :: "string \<Rightarrow> string" where
  "rstrip_slash t = rev (dropWhile (\<lambda>c. c = CHR ''/'') (rev t))"

definition expanduser_tilde :: "string \<Rightarrow> string \<Rightarrow> string" where
  "expanduser_tilde home rest =
     (let r = rstrip_slash home @ rest in if r = [] then ''/'' else r)"

definition path_join :: "string \<Rightarrow> string \<Rightarrow> string" where
  "path_join a b =
     (if b \<noteq> [] \<and> hd b = CHR ''/'' then b
      else if a = [] \<or> last a = CHR ''/'' then a @ b
      else a @ ''/'' @ b)"

definition miniconda_dir :: "string \<Rightarrow> string" where
  "miniconda_dir home = expanduser_tilde home ''/miniconda''"

definition miniconda_bin_dir :: "string \<Rightarrow> string" where
  "miniconda_bin_dir home = path_join (miniconda_dir home) ''bin''"

definition conda :: "string \<Rightarrow> string" where
  "conda home = path_join (miniconda_bin_dir home) ''conda''"

definition binstar :: "string \<Rightarrow> string" where
  "binstar home = path_join (miniconda_bin_dir home) ''binstar''"

definition python :: string where
  "python = ''python''"

section \<open>Running commands\<close>

text \<open>
  \<open>co = partial(subprocess.check_output, stderr=subprocess.STDOUT)\<close>: the output of the
  child is captured; it is the result on exit code 0 and the \<open>output\<close> attribute of the
  \<open>CalledProcessError\<close> otherwise.
\<close>

definition co :: "'w process \<Rightarrow> string list \<Rightarrow> 'w state \<Rightarrow> 'w state \<times> (error + string)" where
  "co proc argv s =
     (case proc argv (world s) of
        (Not_started errno, w) \<Rightarrow>
          (s\<lparr>world := w, calls := calls s @ [Check_output argv]\<rparr>, Inl (OSError errno))
      | (Exited rc out, w) \<Rightarrow>
          (let s' = s\<lparr>world := w, calls := calls s @ [Check_output argv]\<rparr> in
           if rc = 0 then (s', Inr out)
           else (s', Inl (CalledProcessError
                   \<lparr>returncode = rc, cmd = argv, output = Some out\<rparr>))))"

text \<open>
  \<open>check = partial(subprocess.check_call, stderr=subprocess.STDOUT)\<close>: nothing is
  captured. The child inherits the standard output of the script and writes there
  itself; the result is 0, and the \<open>CalledProcessError\<close> of a non-zero exit code has no
  \<open>output\<close>.
\<close>

definition check :: "'w process \<Rightarrow> string list \<Rightarrow> 'w state \<Rightarrow> 'w state \<times> (error + int)" where
  "check proc argv s =
     (case proc argv (world s) of
        (Not_started errno, w) \<Rightarrow>
          (s\<lparr>world := w, calls := calls s @ [Check_call argv]\<rparr>, Inl (OSError errno))
      | (Exited rc out, w) \<Rightarrow>
          (let s' = s\<lparr>world := w, stdout := stdout s @ [out],
                      calls := calls s @ [Check_call argv]\<rparr> in
           if rc = 0 then (s', Inr 0)
           else (s', Inl (CalledProcessError
                   \<lparr>returncode = rc, cmd = argv, output = None\<rparr>))))"

definition execute :: "'w process \<Rightarrow> string list \<Rightarrow> bool \<Rightarrow> 'w state \<Rightarrow> 'w state \<times> (error + string)" where
  "execute proc argv verbose s =
     (let s1 = (if verbose then print (''> '' @ join '' '' argv) s else s) in
      case co proc argv s1 of
        (s2, Inl e) \<Rightarrow> (s2, Inl e)
      | (s2, Inr result) \<Rightarrow> ((if verbose then print result s2 else s2), Inr result))"

text \<open>The \<open>for\<close> loop of \<open>execute_sequence\<close>: an exception of \<open>execute\<close> leaves the loop.\<close>

fun for_cmds :: "'w process \<Rightarrow> bool \<Rightarrow> string list list \<Rightarrow> 'w state \<Rightarrow> 'w state \<times> (error + unit)" where
  "for_cmds proc verbose [] s = (s, Inr ())"
| "for_cmds proc verbose (c # cs) s =
     (case execute proc c verbose s of
        (s', Inl e) \<Rightarrow> (s', Inl e)
      | (s', Inr _) \<Rightarrow> for_cmds proc verbose cs s')"

text \<open>
  \<open>execute_sequence(*cmds, **kwargs)\<close>; the keyword \<open>verbose\<close> is \<open>None\<close> when the caller
  does not pass it. Only a \<open>CalledProcessError\<close> is caught, printed and raised again.
\<close>

definition execute_sequence :: "'w process \<Rightarrow> string list list \<Rightarrow> bool option \<Rightarrow> 'w state \<Rightarrow> 'w state \<times> (error + unit)" where
  "execute_sequence proc cmds verbose_kw s =
     (let verbose = (case verbose_kw of None \<Rightarrow> True | Some v \<Rightarrow> v) in
      case for_cmds proc verbose cmds s of
        (s', Inl (CalledProcessError e)) \<Rightarrow>
          (print ('' -> '' @ format_opt (output e)) s', Inl (CalledProcessError e))
      | (s', r) \<Rightarrow> (s', r))"

section \<open>Provisioning, building, uploading\<close>

text \<open>
  The module global \<open>ns\<close> is bound only by the entry point; the functions that read it
  take it as an option, \<open>None\<close> when it is unbound.
\<close>

definition setup_miniconda :: "'w process \<Rightarrow> string \<Rightarrow> namespace option \<Rightarrow> string \<Rightarrow> string option \<Rightarrow> 'w state \<Rightarrow> 'w state \<times> (error + unit)" where
  "setup_miniconda proc home ns url channel s =
     (case ns of
        None \<Rightarrow> (s, Inl (NameError ''ns''))
      | Some n \<Rightarrow>
          (let s1 = print (''Setting up miniconda from URL '' @ format_opt (ns_path n)) s;
               miniconda_file = ''miniconda.sh'';
               cmds = [[''wget'', ''-nv'', url, ''-O'', miniconda_file],
                       [python, miniconda_file, ''-b'', ''-p'', miniconda_dir home],
                       [conda home, ''update'', ''-q'', ''--yes'', ''conda''],
                       [conda home, ''install'', ''-q'', ''--yes'', ''conda-build'',
                        ''jinja2'', ''binstar'']]
           in case channel of
                Some ch \<Rightarrow>
                  execute_sequence proc
                    (cmds @ [[conda home, ''config'', ''--add'', ''channels'', ch]]) None
                    (print (''(adding channel '' @ [CHR 0x27] @ ch @ [CHR 0x27]
                            @ '' for dependencies)'') s1)
              | None \<Rightarrow>
                  execute_sequence proc cmds None
                    (print (''No channels have been configured (all dependencies have to be ''
                            @ ''sourceble from anaconda)'') s1)))"

text \<open>
  \<open>build(path)\<close>. The entry point passes \<open>ns.path\<close>, which is \<open>None\<close> when \<open>--path\<close> is not
  given; the command then holds \<open>None\<close>, and \<open>' '.join(cmd)\<close> in \<open>execute\<close> (verbose by
  default) raises \<open>TypeError\<close> before anything is printed or run.
\<close>

definition build :: "'w process \<Rightarrow> string \<Rightarrow> string option \<Rightarrow> 'w state \<Rightarrow> 'w state \<times> (error + unit)" where
  "build proc home path s =
     (case path of
        None \<Rightarrow> (s, Inl TypeError)
      | Some p \<Rightarrow> execute_sequence proc [[conda home, ''build'', ''-q'', p]] None s)"

text \<open>
  \<open>binstar_upload\<close>: the command list of the caught error is the list that was passed to
  \<open>check\<close> (ten tokens, so index 2 exists); it is updated in place and a new error is
  raised from the exit code and that list alone.
\<close>

definition binstar_upload :: "'w process \<Rightarrow> string \<Rightarrow> string \<Rightarrow> string \<Rightarrow> string \<Rightarrow> string \<Rightarrow> 'w state \<Rightarrow> 'w state \<times> (error + unit)" where
  "binstar_upload proc home key user channel path s =
     (case check proc [binstar home, ''-t'', key, ''upload'',
                       ''--force'', ''-u'', user, ''-c'', channel, path] s of
        (s', Inl (CalledProcessError e)) \<Rightarrow>
          (let c = (cmd e)[2 := ''BINSTAR_KEY''] in
           (s', Inl (CalledProcessError \<lparr>returncode = returncode e, cmd = c, output = None\<rparr>)))
      | (s', Inl e) \<Rightarrow> (s', Inl e)
      | (s', Inr _) \<Rightarrow> (s', Inr ()))"

section \<open>The upload gate\<close>

definition resolve_can_upload_from_travis :: "(string \<rightharpoonup> string) \<Rightarrow> 'w state \<Rightarrow> 'w state \<times> (error + bool)" where
  "resolve_can_upload_from_travis env s =
     (case env ''TRAVIS_PULL_REQUEST'' of
        None \<Rightarrow> (s, Inl (KeyError ''TRAVIS_PULL_REQUEST''))
      | Some v \<Rightarrow>
          (let is_a_pr = (v = ''true'');
               can_upload = (\<not> is_a_pr)
           in (print (''Can we can upload? : '' @ format_bool can_upload) s, Inr can_upload)))"

definition resolve_channel_from_travis_state :: "(string \<rightharpoonup> string) \<Rightarrow> 'w state \<Rightarrow> 'w state \<times> (error + string)" where
  "resolve_channel_from_travis_state env s =
     (case env ''TRAVIS_BRANCH'' of
        None \<Rightarrow> (s, Inl (KeyError ''TRAVIS_BRANCH''))
      | Some branch \<Rightarrow>
         (case env ''TRAVIS_TAG'' of
            None \<Rightarrow> (s, Inl (KeyError ''TRAVIS_TAG''))
          | Some tag \<Rightarrow>
              (let s1 = print (''Travis branch is \"'' @ branch @ ''\"'') s;
                   s2 = print (''Travis tag found is: \"'' @ tag @ ''\"'') s1
               in if tag \<noteq> [] \<and> branch = tag
                  then (print (''on a tagged release -> upload to ''
                               @ [CHR 0x27] @ ''main'' @ [CHR 0x27]) s2, Inr ''main'')
                  else (print (''not on a tag on master - ''
                               @ ''just upload to the branch name '' @ branch) s2,
                        Inr branch))))"

section \<open>Build and upload, and the entry point\<close>

text \<open>
  \<open>get_conda_build_path\<close> asks the \<open>conda_build\<close> library, which is not part of the
  script: it is the parameter \<open>bldpkg\<close>, which may raise.
\<close>

definition build_and_upload :: "'w process \<Rightarrow> string \<Rightarrow> (string \<rightharpoonup> string) \<Rightarrow> (string option \<Rightarrow> error + string) \<Rightarrow> namespace option \<Rightarrow> string option \<Rightarrow> string option \<Rightarrow> string option \<Rightarrow> 'w state \<Rightarrow> 'w state \<times> (error + unit)" where
  "build_and_upload proc home env bldpkg ns path user key s =
     (case ns of
        None \<Rightarrow> (s, Inl (NameError ''ns''))
      | Some n \<Rightarrow>
         (case build proc home path
                 (print (''Building package at path '' @ format_opt (ns_path n)) s) of
            (s2, Inl e) \<Rightarrow> (s2, Inl e)
          | (s2, Inr _) \<Rightarrow>
             (let s3 = (if key = None then print ''No binstar key provided'' s2 else s2);
                  s4 = (if user = None then print ''No binstar user provided'' s3 else s3)
              in case (user, key) of
                   (Some u, Some k) \<Rightarrow>
                     (case resolve_can_upload_from_travis env s4 of
                        (s5, Inl e) \<Rightarrow> (s5, Inl e)
                      | (s5, Inr can) \<Rightarrow>
                          if can then
                            (case resolve_channel_from_travis_state env s5 of
                               (s6, Inl e) \<Rightarrow> (s6, Inl e)
                             | (s6, Inr channel) \<Rightarrow>
                                 (let s7 = print (''Uploading to '' @ u @ ''/'' @ channel) s6
                                  in case bldpkg path of
                                       Inl e \<Rightarrow> (s7, Inl e)
                                     | Inr pkg \<Rightarrow> binstar_upload proc home k u channel pkg s7))
                          else (s5, Inr ()))
                 | _ \<Rightarrow> (print ''-> Unable to upload to binstar'' s4, Inr ()))))"

text \<open>
  The body of \<open>if __name__ == "__main__"\<close> after \<open>parse_args\<close>, with \<open>ns\<close> bound to the
  parsed namespace.
\<close>

definition main :: "'w process \<Rightarrow> string \<Rightarrow> (string \<rightharpoonup> string) \<Rightarrow> (string option \<Rightarrow> error + string) \<Rightarrow> namespace \<Rightarrow> 'w state \<Rightarrow> 'w state \<times> (error + unit)" where
  "main proc home env bldpkg n s =
     (if ns_mode n = ''setup'' then
        (case ns_url n of
           None \<Rightarrow> (s, Inl (ValueError
                     (''You must provide a miniconda URL for the '' @ ''setup command'')))
         | Some url \<Rightarrow> setup_miniconda proc home (Some n) url (ns_channel n) s)
      else if ns_mode n = ''build'' then
        build_and_upload proc home env bldpkg (Some n) (ns_path n) (ns_user n) (ns_key n) s
      else (s, Inr ()))"

text \<open>
  The exit status of the interpreter: 0 when the script runs to its end, 1 when an
  exception leaves it.
\<close>

definition exit_status :: "error + unit \<Rightarrow> int" where
  "exit_status r = (case r of Inl _ \<Rightarrow> 1 | Inr _ \<Rightarrow> 0)"

section \<open>Observations and concrete inputs\<close>

text \<open>An upload is a \<open>check_call\<close>: \<open>binstar_upload\<close> is the only caller of \<open>check\<close>.\<close>

fun is_upload :: "call \<Rightarrow> bool" where
  "is_upload (Check_call argv) = True"
| "is_upload (Check_output argv) = False"

text \<open>
  Concrete worlds for the examples: the world counts the commands run so far. Every
  command succeeds; the command at a given position exits with 1; the upload is rejected.
\<close>

definition start :: "nat state" where
  "start = \<lparr>world = 0, stdout = [], calls = []\<rparr>"

definition all_succeed :: "nat process" where
  "all_succeed argv w = (Exited 0 ''ok'', Suc w)"

definition fails_at :: "nat \<Rightarrow> nat process" where
  "fails_at k argv w = (if w = k then Exited 1 ''boom'' else Exited 0 ''ok'', Suc w)"

definition upload_rejected :: "nat process" where
  "upload_rejected argv w =
     (if ''upload'' \<in> set argv then Exited 1 ''Unauthorized'' else Exited 0 ''ok'', Suc w)"

definition travis_env :: "string \<Rightarrow> string \<Rightarrow> string \<Rightarrow> (string \<rightharpoonup> string)" where
  "travis_env pr branch tag =
     [''TRAVIS_PULL_REQUEST'' \<mapsto> pr, ''TRAVIS_BRANCH'' \<mapsto> branch, ''TRAVIS_TAG'' \<mapsto> tag]"

definition pkg_path :: "string option \<Rightarrow> error + string" where
  "pkg_path path = (case path of None \<Rightarrow> Inl TypeError | Some p \<Rightarrow> Inr (p @ ''.tar.bz2''))"

definition setup_args :: namespace where
  "setup_args = \<lparr>ns_mode = ''setup'', ns_url = Some ''http://x/installer.sh'',
                  ns_channel = None, ns_path = None, ns_user = None, ns_key = None\<rparr>"

definition build_args :: namespace where
  "build_args = \<lparr>ns_mode = ''build'', ns_url = None, ns_channel = None,
                  ns_path = Some ''/pkg'', ns_user = Some ''alice'', ns_key = None\<rparr>"

section \<open>Facts about the runner and the sequencer\<close>

lemma print_simps:
  "world (print l s) = world s" "calls (print l s) = calls s"
  "stdout (print l s) = stdout s @ [l]"
  by (simp_all add: print_def)

lemma co_calls: "calls (fst (co proc c s)) = calls s @ [Check_output c]"
  by (simp add: co_def Let_def split: prod.splits outcome.splits)

lemma execute_calls: "calls (fst (execute proc c v s)) = calls s @ [Check_output c]"
proof -
  have "calls (fst (execute proc c v s)) =
          calls (fst (co proc c (if v then print (''> '' @ join '' '' c) s else s)))"
    by (simp add: execute_def Let_def print_simps split: prod.splits sum.splits)
  then show ?thesis by (simp add: co_calls print_simps)
qed

lemma execute_exit:
  assumes "proc c (world s) = (Exited rc out, w)"
  shows "snd (execute proc c v s) =
           (if rc = 0 then Inr out
            else Inl (CalledProcessError \<lparr>returncode = rc, cmd = c, output = Some out\<rparr>))"
  using assms by (simp add: execute_def co_def Let_def print_simps)

lemma execute_raises:
  assumes "execute proc c v s = (s', Inl (CalledProcessError e))"
  shows "cmd e = c \<and> returncode e \<noteq> 0 \<and> (\<exists>out. output e = Some out)"
  using assms
  by (auto simp: execute_def co_def Let_def split: prod.splits outcome.splits if_splits)

lemma for_cmds_append:
  "for_cmds proc v pre s = (s1, Inr u) \<Longrightarrow>
   for_cmds proc v (pre @ rest) s = for_cmds proc v rest s1"
  by (induction pre arbitrary: s) (auto split: prod.splits sum.splits)

lemma for_cmds_ok_calls:
  "for_cmds proc v cs s = (s', Inr u) \<Longrightarrow> calls s' = calls s @ map Check_output cs"
proof (induction cs arbitrary: s)
  case Nil
  then show ?case by simp
next
  case (Cons c cs)
  obtain s1 r where ex: "execute proc c v s = (s1, r)" by (cases "execute proc c v s")
  with Cons.prems obtain out where r: "r = Inr out" and rest: "for_cmds proc v cs s1 = (s', Inr u)"
    by (cases r) auto
  have "calls s1 = calls s @ [Check_output c]"
    using execute_calls [of proc c v s] ex by simp
  with Cons.IH [OF rest] show ?case by simp
qed

lemma for_cmds_calls_prefix:
  "\<exists>k \<le> length cs. calls (fst (for_cmds proc v cs s)) = calls s @ map Check_output (take k cs)"
proof (induction cs arbitrary: s)
  case Nil
  then show ?case by simp
next
  case (Cons c cs)
  obtain s1 r where ex: "execute proc c v s = (s1, r)" by (cases "execute proc c v s")
  have c1: "calls s1 = calls s @ [Check_output c]"
    using execute_calls [of proc c v s] ex by simp
  show ?case
  proof (cases r)
    case (Inl e)
    with ex c1 have "calls (fst (for_cmds proc v (c # cs) s)) =
                       calls s @ map Check_output (take 1 (c # cs))"
      by simp
    then show ?thesis by (intro exI [of _ 1]) simp
  next
    case (Inr out)
    from Cons.IH [of s1] obtain k where k: "k \<le> length cs"
      "calls (fst (for_cmds proc v cs s1)) = calls s1 @ map Check_output (take k cs)" by blast
    with ex c1 Inr have "calls (fst (for_cmds proc v (c # cs) s)) =
                           calls s @ map Check_output (take (Suc k) (c # cs))"
      by simp
    with k(1) show ?thesis by (intro exI [of _ "Suc k"]) simp
  qed
qed

lemma execute_sequence_calls:
  "calls (fst (execute_sequence proc cs kw s)) =
   calls (fst (for_cmds proc (case kw of None \<Rightarrow> True | Some b \<Rightarrow> b) cs s))"
  by (simp add: execute_sequence_def Let_def print_simps
           split: prod.splits sum.splits error.splits)

lemma execute_sequence_ok_calls:
  assumes "execute_sequence proc cs kw s = (s', Inr u)"
  shows "calls s' = calls s @ map Check_output cs"
proof -
  let ?v = "case kw of None \<Rightarrow> True | Some b \<Rightarrow> b"
  from assms have "for_cmds proc ?v cs s = (s', Inr u)"
    by (auto simp: execute_sequence_def Let_def split: prod.splits sum.splits error.splits)
  then show ?thesis by (rule for_cmds_ok_calls)
qed

lemma execute_sequence_calls_prefix:
  "\<exists>k \<le> length cs. calls (fst (execute_sequence proc cs kw s))
                      = calls s @ map Check_output (take k cs)"
  using for_cmds_calls_prefix [of cs proc "case kw of None \<Rightarrow> True | Some b \<Rightarrow> b" s]
  by (simp add: execute_sequence_calls)

text \<open>Nothing that was printed is ever taken back.\<close>

lemma co_stdout: "stdout (fst (co proc c s)) = stdout s"
  by (simp add: co_def Let_def split: prod.splits outcome.splits)

lemma execute_stdout: "\<exists>rest. stdout (fst (execute proc c v s)) = stdout s @ rest"
proof -
  obtain s2 r where c: "co proc c (if v then print (''> '' @ join '' '' c) s else s) = (s2, r)"
    by (cases "co proc c (if v then print (''> '' @ join '' '' c) s else s)")
  then have "stdout s2 = stdout (if v then print (''> '' @ join '' '' c) s else s)"
    using co_stdout [of proc c "if v then print (''> '' @ join '' '' c) s else s"] by simp
  with c show ?thesis
    by (cases r) (auto simp: execute_def Let_def print_simps)
qed

lemma for_cmds_stdout: "\<exists>rest. stdout (fst (for_cmds proc v cs s)) = stdout s @ rest"
proof (induction cs arbitrary: s)
  case Nil
  then show ?case by simp
next
  case (Cons c cs)
  obtain s1 r where ex: "execute proc c v s = (s1, r)" by (cases "execute proc c v s")
  then obtain r1 where r1: "stdout s1 = stdout s @ r1"
    using execute_stdout [of proc c v s] by auto
  show ?case
  proof (cases r)
    case (Inl e)
    with ex r1 show ?thesis by simp
  next
    case (Inr out)
    from Cons.IH [of s1] obtain r2 where "stdout (fst (for_cmds proc v cs s1)) = stdout s1 @ r2"
      by blast
    with ex r1 Inr show ?thesis by simp
  qed
qed

lemma execute_sequence_stdout:
  "\<exists>rest. stdout (fst (execute_sequence proc cs kw s)) = stdout s @ rest"
proof -
  let ?v = "case kw of None \<Rightarrow> True | Some b \<Rightarrow> b"
  obtain r1 where r1: "stdout (fst (for_cmds proc ?v cs s)) = stdout s @ r1"
    using for_cmds_stdout [of proc ?v cs s] by blast
  obtain s1 r where f: "for_cmds proc ?v cs s = (s1, r)" by (cases "for_cmds proc ?v cs s")
  with r1 show ?thesis
    by (auto simp: execute_sequence_def Let_def print_simps split: sum.splits error.splits)
qed

section \<open>Facts about the paths and the three steps\<close>

lemma miniconda_dir_eq: "miniconda_dir home = rstrip_slash home @ ''/miniconda''"
  by (simp add: miniconda_dir_def expanduser_tilde_def Let_def)

lemma conda_eq: "conda home = rstrip_slash home @ ''/miniconda/bin/conda''"
  by (simp add: conda_def miniconda_bin_dir_def miniconda_dir_eq path_join_def)

lemma binstar_eq: "binstar home = rstrip_slash home @ ''/miniconda/bin/binstar''"
  by (simp add: binstar_def miniconda_bin_dir_def miniconda_dir_eq path_join_def)

lemma setup_miniconda_unchannelled:
  "setup_miniconda proc home (Some n) url None s =
     execute_sequence proc
       [[''wget'', ''-nv'', url, ''-O'', ''miniconda.sh''],
        [''python'', ''miniconda.sh'', ''-b'', ''-p'', rstrip_slash home @ ''/miniconda''],
        [rstrip_slash home @ ''/miniconda/bin/conda'', ''update'', ''-q'', ''--yes'', ''conda''],
        [rstrip_slash home @ ''/miniconda/bin/conda'', ''install'', ''-q'', ''--yes'',
         ''conda-build'', ''jinja2'', ''binstar'']]
       None
       (print ''No channels have been configured (all dependencies have to be sourceble from anaconda)''
          (print (''Setting up miniconda from URL '' @ format_opt (ns_path n)) s))"
  by (simp add: setup_miniconda_def Let_def python_def conda_eq miniconda_dir_eq)

lemma setup_miniconda_channelled:
  "setup_miniconda proc home (Some n) url (Some ch) s =
     execute_sequence proc
       [[''wget'', ''-nv'', url, ''-O'', ''miniconda.sh''],
        [''python'', ''miniconda.sh'', ''-b'', ''-p'', rstrip_slash home @ ''/miniconda''],
        [rstrip_slash home @ ''/miniconda/bin/conda'', ''update'', ''-q'', ''--yes'', ''conda''],
        [rstrip_slash home @ ''/miniconda/bin/conda'', ''install'', ''-q'', ''--yes'',
         ''conda-build'', ''jinja2'', ''binstar''],
        [rstrip_slash home @ ''/miniconda/bin/conda'', ''config'', ''--add'', ''channels'', ch]]
       None
       (print (''(adding channel '' @ [CHR 0x27] @ ch @ [CHR 0x27] @ '' for dependencies)'')
          (print (''Setting up miniconda from URL '' @ format_opt (ns_path n)) s))"
  by (simp add: setup_miniconda_def Let_def python_def conda_eq miniconda_dir_eq)

lemma setup_miniconda_calls:
  "\<exists>cs. calls (fst (setup_miniconda proc home ns url channel s)) = calls s @ map Check_output cs"
proof (cases ns)
  case None
  then have "calls (fst (setup_miniconda proc home ns url channel s))
               = calls s @ map Check_output []"
    by (simp add: setup_miniconda_def)
  then show ?thesis by blast
next
  case (Some n)
  have "\<exists>cs s0. setup_miniconda proc home (Some n) url channel s
                   = execute_sequence proc cs None s0 \<and> calls s0 = calls s"
  proof (cases channel)
    case None
    show ?thesis unfolding None setup_miniconda_unchannelled
      by (intro exI conjI) (rule refl, simp add: print_simps)
  next
    case (Some ch)
    show ?thesis unfolding Some setup_miniconda_channelled
      by (intro exI conjI) (rule refl, simp add: print_simps)
  qed
  then obtain cs s0
    where eq: "setup_miniconda proc home (Some n) url channel s = execute_sequence proc cs None s0"
      and s0: "calls s0 = calls s"
    by blast
  obtain k where "calls (fst (execute_sequence proc cs None s0))
                    = calls s0 @ map Check_output (take k cs)"
    using execute_sequence_calls_prefix [of cs proc None s0] by blast
  with eq s0 Some show ?thesis by auto
qed

lemma no_upload_in_outputs: "filter is_upload (map Check_output cs) = []"
  by (induction cs) simp_all

lemma build_calls:
  "\<exists>cs. calls (fst (build proc home path s)) = calls s @ map Check_output cs"
proof (cases path)
  case None
  then have "calls (fst (build proc home path s)) = calls s @ map Check_output []"
    by (simp add: build_def)
  then show ?thesis by blast
next
  case (Some p)
  then show ?thesis
    using execute_sequence_calls_prefix [of "[[conda home, ''build'', ''-q'', p]]" proc None s]
    by (auto simp: build_def)
qed

lemma build_no_upload:
  "filter is_upload (calls (fst (build proc home path s))) = filter is_upload (calls s)"
proof -
  obtain cs where "calls (fst (build proc home path s)) = calls s @ map Check_output cs"
    using build_calls by blast
  then show ?thesis by (simp add: no_upload_in_outputs)
qed

lemma check_exit:
  assumes "proc c (world s) = (Exited rc out, w)"
  shows "check proc c s =
           (s\<lparr>world := w, stdout := stdout s @ [out], calls := calls s @ [Check_call c]\<rparr>,
            if rc = 0 then Inr 0
            else Inl (CalledProcessError \<lparr>returncode = rc, cmd = c, output = None\<rparr>))"
  using assms by (simp add: check_def Let_def)

lemma check_calls: "calls (fst (check proc c s)) = calls s @ [Check_call c]"
  by (simp add: check_def Let_def split: prod.splits outcome.splits)

lemma binstar_upload_exit:
  assumes "proc [binstar home, ''-t'', key, ''upload'', ''--force'', ''-u'', user, ''-c'',
                 channel, path] (world s) = (Exited rc out, w)"
  shows "snd (binstar_upload proc home key user channel path s) =
           (if rc = 0 then Inr ()
            else Inl (CalledProcessError
                   \<lparr>returncode = rc,
                    cmd = [binstar home, ''-t'', ''BINSTAR_KEY'', ''upload'', ''--force'', ''-u'',
                           user, ''-c'', channel, path],
                    output = None\<rparr>))"
  using assms
    check_exit [of proc "[binstar home, ''-t'', key, ''upload'', ''--force'', ''-u'', user, ''-c'',
                 channel, path]" s rc out w]
  by (simp add: binstar_upload_def)

lemma binstar_upload_calls:
  "calls (fst (binstar_upload proc home key user channel path s)) =
     calls s @ [Check_call [binstar home, ''-t'', key, ''upload'', ''--force'', ''-u'', user,
                            ''-c'', channel, path]]"
  using check_calls [of proc "[binstar home, ''-t'', key, ''upload'', ''--force'', ''-u'', user,
                            ''-c'', channel, path]" s]
  by (auto simp: binstar_upload_def Let_def split: prod.splits sum.splits error.splits)

section \<open>The upload gate\<close>

text \<open>
  C1. Channel resolution: for every branch and tag that the CI environment reports, the
  channel is \<open>main\<close> when the tag is not empty and equals the branch, and the branch itself,
  unchanged (the empty string when the branch is empty), in every other case.
\<close>

theorem channel_resolution:
  assumes "env ''TRAVIS_BRANCH'' = Some branch" and "env ''TRAVIS_TAG'' = Some tag"
  shows "snd (resolve_channel_from_travis_state env s) =
           Inr (if tag \<noteq> [] \<and> tag = branch then ''main'' else branch)"
  using assms by (auto simp: resolve_channel_from_travis_state_def Let_def)

theorem channel_resolution_witness:
  "travis_env ''false'' ''v1.0'' ''v1.0'' ''TRAVIS_BRANCH'' = Some ''v1.0''
   \<and> travis_env ''false'' ''v1.0'' ''v1.0'' ''TRAVIS_TAG'' = Some ''v1.0''
   \<and> snd (resolve_channel_from_travis_state (travis_env ''false'' ''v1.0'' ''v1.0'') start)
       = Inr ''main''"
  using channel_resolution [of "travis_env ''false'' ''v1.0'' ''v1.0''" "''v1.0''" "''v1.0''" start]
  by (simp add: travis_env_def)

text \<open>
  C2. Upload eligibility: when the pull-request variable is present, the answer is the
  negation of the comparison of its value with the string \<open>true\<close>, whatever else the
  value is.
\<close>

theorem upload_eligibility:
  assumes "env ''TRAVIS_PULL_REQUEST'' = Some v"
  shows "snd (resolve_can_upload_from_travis env s) = Inr (v \<noteq> ''true'')"
  using assms by (simp add: resolve_can_upload_from_travis_def Let_def)

theorem upload_eligibility_witness:
  "travis_env ''1'' ''master'' [] ''TRAVIS_PULL_REQUEST'' = Some ''1''
   \<and> snd (resolve_can_upload_from_travis (travis_env ''1'' ''master'' []) start) = Inr True"
  using upload_eligibility [of "travis_env ''1'' ''master'' []" "''1''" start]
  by (simp add: travis_env_def)

section \<open>Build and upload without credentials\<close>

text \<open>
  C3. Build and upload with the user or the key missing (or both): whatever the
  environment says, no upload call is made; and once the build step has returned, the
  missing credentials are printed, then the line that no upload is possible, and the
  function returns normally.
\<close>

theorem missing_credentials_skip_upload:
  assumes "user = None \<or> key = None"
  shows "filter is_upload (calls (fst (build_and_upload proc home env bldpkg ns path user key s)))
           = filter is_upload (calls s)
       \<and> (ns = Some n
            \<and> build proc home path
                 (print (''Building package at path '' @ format_opt (ns_path n)) s) = (s2, Inr ())
          \<longrightarrow> build_and_upload proc home env bldpkg ns path user key s =
                (s2\<lparr>stdout := stdout s2
                        @ (if key = None then [''No binstar key provided''] else [])
                        @ (if user = None then [''No binstar user provided''] else [])
                        @ [''-> Unable to upload to binstar'']\<rparr>, Inr ()))"
proof (intro conjI impI)
  show "filter is_upload (calls (fst (build_and_upload proc home env bldpkg ns path user key s)))
           = filter is_upload (calls s)"
  proof (cases ns)
    case None
    then show ?thesis by (simp add: build_and_upload_def)
  next
    case (Some m)
    let ?s1 = "print (''Building package at path '' @ format_opt (ns_path m)) s"
    obtain sb r where b: "build proc home path ?s1 = (sb, r)"
      by (cases "build proc home path ?s1")
    have nb: "filter is_upload (calls sb) = filter is_upload (calls s)"
      using build_no_upload [of proc home path ?s1] b by (simp add: print_simps)
    from assms Some b nb show ?thesis
      by (cases r) (auto simp: build_and_upload_def Let_def print_simps split: option.splits)
  qed
next
  assume h: "ns = Some n
            \<and> build proc home path
                 (print (''Building package at path '' @ format_opt (ns_path n)) s) = (s2, Inr ())"
  with assms show "build_and_upload proc home env bldpkg ns path user key s =
                (s2\<lparr>stdout := stdout s2
                        @ (if key = None then [''No binstar key provided''] else [])
                        @ (if user = None then [''No binstar user provided''] else [])
                        @ [''-> Unable to upload to binstar'']\<rparr>, Inr ())"
    by (auto simp: build_and_upload_def Let_def print_def split: option.splits)
qed

theorem missing_credentials_skip_upload_witness:
  "(Some ''alice'' = None \<or> (None :: string option) = None)
   \<and> build all_succeed ''/home/travis'' (Some ''/pkg'')
         (print (''Building package at path '' @ format_opt (ns_path build_args)) start)
       = (\<lparr>world = 1,
           stdout = [''Building package at path /pkg'',
                     ''> /home/travis/miniconda/bin/conda build -q /pkg'', ''ok''],
           calls = [Check_output [''/home/travis/miniconda/bin/conda'', ''build'', ''-q'',
                                  ''/pkg'']]\<rparr>, Inr ())
   \<and> filter is_upload (calls (fst (build_and_upload all_succeed ''/home/travis''
         (travis_env ''false'' ''release'' ''release'') pkg_path (Some build_args)
         (Some ''/pkg'') (Some ''alice'') None start))) = []
   \<and> build_and_upload all_succeed ''/home/travis''
         (travis_env ''false'' ''release'' ''release'') pkg_path (Some build_args)
         (Some ''/pkg'') (Some ''alice'') None start
       = (\<lparr>world = 1,
           stdout = [''Building package at path /pkg'',
                     ''> /home/travis/miniconda/bin/conda build -q /pkg'', ''ok'',
                     ''No binstar key provided'', ''-> Unable to upload to binstar''],
           calls = [Check_output [''/home/travis/miniconda/bin/conda'', ''build'', ''-q'',
                                  ''/pkg'']]\<rparr>, Inr ())"
proof -
  have b: "build all_succeed ''/home/travis'' (Some ''/pkg'')
         (print (''Building package at path '' @ format_opt (ns_path build_args)) start)
       = (\<lparr>world = 1,
           stdout = [''Building package at path /pkg'',
                     ''> /home/travis/miniconda/bin/conda build -q /pkg'', ''ok''],
           calls = [Check_output [''/home/travis/miniconda/bin/conda'', ''build'', ''-q'',
                                  ''/pkg'']]\<rparr>, Inr ())"
    by (simp add: build_def execute_sequence_def execute_def co_def all_succeed_def print_def
          start_def build_args_def format_opt_def conda_eq rstrip_slash_def Let_def)
  show ?thesis
    using b missing_credentials_skip_upload
      [where user = "Some ''alice''" and key = None and proc = all_succeed
         and home = "''/home/travis''" and env = "travis_env ''false'' ''release'' ''release''"
         and bldpkg = pkg_path and ns = "Some build_args" and n = build_args
         and path = "Some ''/pkg''" and s = start
         and ?s2.0 = "\<lparr>world = 1,
           stdout = [''Building package at path /pkg'',
                     ''> /home/travis/miniconda/bin/conda build -q /pkg'', ''ok''],
           calls = [Check_output [''/home/travis/miniconda/bin/conda'', ''build'', ''-q'',
                                  ''/pkg'']]\<rparr>"]
    by (simp add: start_def)
qed

section \<open>The publisher\<close>

text \<open>
  C4, as the code has it. When the upload command exits with a non-zero code, the error
  that \<open>binstar_upload\<close> raises carries that code, no captured output, and the command
  with position 2, where the key was, overwritten by \<open>BINSTAR_KEY\<close> and every other
  position as it was. The key occurs nowhere in the error provided it is a substring
  neither of the placeholder nor of another argument (the program path, the fixed
  flags, the user, the channel, the package path).
\<close>

theorem publisher_redaction:
  assumes "proc [binstar home, ''-t'', key, ''upload'', ''--force'', ''-u'', user, ''-c'',
                 channel, path] (world s) = (Exited rc out, w)"
      and "rc \<noteq> 0"
  shows "snd (binstar_upload proc home key user channel path s) =
           Inl (CalledProcessError
                  \<lparr>returncode = rc,
                   cmd = [binstar home, ''-t'', key, ''upload'', ''--force'', ''-u'',
                          user, ''-c'', channel, path] [2 := ''BINSTAR_KEY''],
                   output = None\<rparr>)
       \<and> ((\<forall>t \<in> set [binstar home, ''-t'', ''upload'', ''--force'', ''-u'', user, ''-c'',
                       channel, path, ''BINSTAR_KEY'']. \<not> sublist key t)
          \<longrightarrow> (\<forall>e. snd (binstar_upload proc home key user channel path s)
                       = Inl (CalledProcessError e)
                  \<longrightarrow> output e = None \<and> (\<forall>t \<in> set (cmd e). \<not> sublist key t)))"
  using assms binstar_upload_exit [of proc home key user channel path s rc out w] by auto

theorem publisher_redaction_witness:
  "upload_rejected [binstar ''/home/travis'', ''-t'', ''s3cret'', ''upload'', ''--force'', ''-u'',
                    ''alice'', ''-c'', ''main'', ''/pkg.tar.bz2''] (world start)
     = (Exited 1 ''Unauthorized'', 1)
   \<and> (1 :: int) \<noteq> 0
   \<and> list_all (\<lambda>t. \<not> sublist ''s3cret'' t)
        [binstar ''/home/travis'', ''-t'', ''upload'', ''--force'', ''-u'', ''alice'',
         ''-c'', ''main'', ''/pkg.tar.bz2'', ''BINSTAR_KEY'']
   \<and> snd (binstar_upload upload_rejected ''/home/travis'' ''s3cret'' ''alice'' ''main''
            ''/pkg.tar.bz2'' start)
       = Inl (CalledProcessError
                \<lparr>returncode = 1,
                 cmd = [''/home/travis/miniconda/bin/binstar'', ''-t'', ''BINSTAR_KEY'', ''upload'',
                        ''--force'', ''-u'', ''alice'', ''-c'', ''main'', ''/pkg.tar.bz2''],
                 output = None\<rparr>)
   \<and> list_all (\<lambda>t. \<not> sublist ''s3cret'' t)
        (cmd \<lparr>returncode = 1,
              cmd = [''/home/travis/miniconda/bin/binstar'', ''-t'', ''BINSTAR_KEY'', ''upload'',
                     ''--force'', ''-u'', ''alice'', ''-c'', ''main'', ''/pkg.tar.bz2''],
              output = None\<rparr>)"
proof -
  have path: "binstar ''/home/travis'' = ''/home/travis/miniconda/bin/binstar''"
    by (simp add: binstar_eq rstrip_slash_def)
  have run: "upload_rejected [binstar ''/home/travis'', ''-t'', ''s3cret'', ''upload'', ''--force'',
                    ''-u'', ''alice'', ''-c'', ''main'', ''/pkg.tar.bz2''] (world start)
               = (Exited 1 ''Unauthorized'', 1)"
    by (simp add: upload_rejected_def start_def)
  have nz: "(1 :: int) \<noteq> 0" by simp
  have clean: "\<forall>t \<in> set [binstar ''/home/travis'', ''-t'', ''upload'', ''--force'', ''-u'', ''alice'',
                   ''-c'', ''main'', ''/pkg.tar.bz2'', ''BINSTAR_KEY'']. \<not> sublist ''s3cret'' t"
    by (simp add: binstar_eq rstrip_slash_def) code_simp
  note inst = publisher_redaction [of upload_rejected "''/home/travis''" "''s3cret''" "''alice''"
      "''main''" "''/pkg.tar.bz2''" start 1 "''Unauthorized''" 1, OF run nz]
  have res: "snd (binstar_upload upload_rejected ''/home/travis'' ''s3cret'' ''alice'' ''main''
            ''/pkg.tar.bz2'' start)
       = Inl (CalledProcessError
                \<lparr>returncode = 1,
                 cmd = [''/home/travis/miniconda/bin/binstar'', ''-t'', ''BINSTAR_KEY'', ''upload'',
                        ''--force'', ''-u'', ''alice'', ''-c'', ''main'', ''/pkg.tar.bz2''],
                 output = None\<rparr>)"
    using inst [THEN conjunct1] unfolding path by simp
  have clean': "list_all (\<lambda>t. \<not> sublist ''s3cret'' t)
        [binstar ''/home/travis'', ''-t'', ''upload'', ''--force'', ''-u'', ''alice'',
         ''-c'', ''main'', ''/pkg.tar.bz2'', ''BINSTAR_KEY'']"
    unfolding list_all_iff by (rule clean)
  have nol: "list_all (\<lambda>t. \<not> sublist ''s3cret'' t)
        (cmd \<lparr>returncode = 1,
              cmd = [''/home/travis/miniconda/bin/binstar'', ''-t'', ''BINSTAR_KEY'', ''upload'',
                     ''--force'', ''-u'', ''alice'', ''-c'', ''main'', ''/pkg.tar.bz2''],
              output = None\<rparr>)"
    unfolding list_all_iff
    by (rule inst [THEN conjunct2, THEN mp, OF clean, THEN spec, THEN mp, OF res, THEN conjunct2])
  show ?thesis
    by (intro conjI) (rule run nz clean' res nol)+
qed

text \<open>
  The claim as the specification states it fails when the key is also another argument:
  with the key equal to the user name, the error still carries the key, at position 6.
\<close>

theorem publisher_redaction_counterexample:
  "snd (binstar_upload upload_rejected ''/home/travis'' ''s3cret'' ''s3cret'' ''main''
          ''/pkg.tar.bz2'' start)
     = Inl (CalledProcessError
              \<lparr>returncode = 1,
               cmd = [''/home/travis/miniconda/bin/binstar'', ''-t'', ''BINSTAR_KEY'', ''upload'',
                      ''--force'', ''-u'', ''s3cret'', ''-c'', ''main'', ''/pkg.tar.bz2''],
               output = None\<rparr>)
   \<and> ''s3cret'' \<in> set [''/home/travis/miniconda/bin/binstar'', ''-t'', ''BINSTAR_KEY'', ''upload'',
                        ''--force'', ''-u'', ''s3cret'', ''-c'', ''main'', ''/pkg.tar.bz2'']"
  by (simp add: binstar_upload_def check_def upload_rejected_def start_def binstar_eq
        rstrip_slash_def Let_def)

section \<open>The command sequencer\<close>

text \<open>
  C5. The sequencer is verbose unless told otherwise. When every command succeeds, the
  calls made are the commands of the list, in the order of the list. When the commands
  before \<open>c\<close> succeed and \<open>c\<close> raises a \<open>CalledProcessError\<close>, the sequencer prints one line,
  the arrow followed by the captured output of that error, raises the same error, and
  the calls made are those of the commands up to \<open>c\<close>: none of the commands after \<open>c\<close>.
\<close>

theorem command_sequencer:
  "execute_sequence proc cmds None s = execute_sequence proc cmds (Some True) s
   \<and> (for_cmds proc (case kw of None \<Rightarrow> True | Some b \<Rightarrow> b) cmds s = (s', Inr ())
        \<longrightarrow> execute_sequence proc cmds kw s = (s', Inr ())
            \<and> calls s' = calls s @ map Check_output cmds)
   \<and> (cmds = pre @ c # post
        \<and> for_cmds proc (case kw of None \<Rightarrow> True | Some b \<Rightarrow> b) pre s = (s1, Inr ())
        \<and> execute proc c (case kw of None \<Rightarrow> True | Some b \<Rightarrow> b) s1
            = (s2, Inl (CalledProcessError e))
        \<longrightarrow> (\<exists>out. output e = Some out
              \<and> execute_sequence proc cmds kw s
                  = (s2\<lparr>stdout := stdout s2 @ ['' -> '' @ out]\<rparr>, Inl (CalledProcessError e)))
            \<and> calls (fst (execute_sequence proc cmds kw s))
                  = calls s @ map Check_output (pre @ [c]))"
proof (intro conjI impI)
  show "execute_sequence proc cmds None s = execute_sequence proc cmds (Some True) s"
    by (simp add: execute_sequence_def)
next
  let ?v = "case kw of None \<Rightarrow> True | Some b \<Rightarrow> b"
  assume ok: "for_cmds proc ?v cmds s = (s', Inr ())"
  then show "execute_sequence proc cmds kw s = (s', Inr ())"
    by (simp add: execute_sequence_def)
  from ok show "calls s' = calls s @ map Check_output cmds"
    by (rule for_cmds_ok_calls)
next
  let ?v = "case kw of None \<Rightarrow> True | Some b \<Rightarrow> b"
  assume h: "cmds = pre @ c # post \<and> for_cmds proc ?v pre s = (s1, Inr ())
             \<and> execute proc c ?v s1 = (s2, Inl (CalledProcessError e))"
  then have loop: "for_cmds proc ?v cmds s = (s2, Inl (CalledProcessError e))"
    using for_cmds_append [of proc ?v pre s s1 "()" "c # post"] by simp
  from h obtain out where out: "output e = Some out"
    using execute_raises [of proc c ?v s1 s2 e] by blast
  from loop out have res: "execute_sequence proc cmds kw s
          = (s2\<lparr>stdout := stdout s2 @ ['' -> '' @ out]\<rparr>, Inl (CalledProcessError e))"
    by (simp add: execute_sequence_def print_def format_opt_def)
  with out show "\<exists>out. output e = Some out
              \<and> execute_sequence proc cmds kw s
                  = (s2\<lparr>stdout := stdout s2 @ ['' -> '' @ out]\<rparr>, Inl (CalledProcessError e))"
    by blast
  have "calls s1 = calls s @ map Check_output pre"
    using h for_cmds_ok_calls [of proc ?v pre s s1 "()"] by simp
  moreover have "calls s2 = calls s1 @ [Check_output c]"
    using h execute_calls [of proc c ?v s1] by simp
  ultimately show "calls (fst (execute_sequence proc cmds kw s))
                  = calls s @ map Check_output (pre @ [c])"
    using res by simp
qed

theorem command_sequencer_witness:
  "for_cmds all_succeed True [[''a''], [''b'', ''x'']] start
     = (\<lparr>world = 2, stdout = [''> a'', ''ok'', ''> b x'', ''ok''],
         calls = [Check_output [''a''], Check_output [''b'', ''x'']]\<rparr>, Inr ())
   \<and> execute_sequence all_succeed [[''a''], [''b'', ''x'']] None start
     = (\<lparr>world = 2, stdout = [''> a'', ''ok'', ''> b x'', ''ok''],
         calls = [Check_output [''a''], Check_output [''b'', ''x'']]\<rparr>, Inr ())
   \<and> [[''a''], [''b'', ''x''], [''c'']] = [[''a'']] @ [''b'', ''x''] # [[''c'']]
   \<and> for_cmds (fails_at 1) True [[''a'']] start
     = (\<lparr>world = 1, stdout = [''> a'', ''ok''], calls = [Check_output [''a'']]\<rparr>, Inr ())
   \<and> execute (fails_at 1) [''b'', ''x''] True
        \<lparr>world = 1, stdout = [''> a'', ''ok''], calls = [Check_output [''a'']]\<rparr>
     = (\<lparr>world = 2, stdout = [''> a'', ''ok'', ''> b x''],
         calls = [Check_output [''a''], Check_output [''b'', ''x'']]\<rparr>,
        Inl (CalledProcessError \<lparr>returncode = 1, cmd = [''b'', ''x''], output = Some ''boom''\<rparr>))
   \<and> execute_sequence (fails_at 1) [[''a''], [''b'', ''x''], [''c'']] None start
     = (\<lparr>world = 2, stdout = [''> a'', ''ok'', ''> b x'', '' -> boom''],
         calls = [Check_output [''a''], Check_output [''b'', ''x'']]\<rparr>,
        Inl (CalledProcessError \<lparr>returncode = 1, cmd = [''b'', ''x''], output = Some ''boom''\<rparr>))"
proof -
  have ok: "for_cmds all_succeed True [[''a''], [''b'', ''x'']] start
     = (\<lparr>world = 2, stdout = [''> a'', ''ok'', ''> b x'', ''ok''],
         calls = [Check_output [''a''], Check_output [''b'', ''x'']]\<rparr>, Inr ())"
    by (simp add: execute_def co_def all_succeed_def print_def start_def Let_def)
  have split: "[[''a''], [''b'', ''x''], [''c'']] = [[''a'']] @ [''b'', ''x''] # [[''c'']]"
    by simp
  have pre: "for_cmds (fails_at 1) True [[''a'']] start
     = (\<lparr>world = 1, stdout = [''> a'', ''ok''], calls = [Check_output [''a'']]\<rparr>, Inr ())"
    by (simp add: execute_def co_def fails_at_def print_def start_def Let_def)
  have bad: "execute (fails_at 1) [''b'', ''x''] True
        \<lparr>world = 1, stdout = [''> a'', ''ok''], calls = [Check_output [''a'']]\<rparr>
     = (\<lparr>world = 2, stdout = [''> a'', ''ok'', ''> b x''],
         calls = [Check_output [''a''], Check_output [''b'', ''x'']]\<rparr>,
        Inl (CalledProcessError \<lparr>returncode = 1, cmd = [''b'', ''x''], output = Some ''boom''\<rparr>))"
    by (simp add: execute_def co_def fails_at_def print_def Let_def)
  have good_run: "execute_sequence all_succeed [[''a''], [''b'', ''x'']] None start
     = (\<lparr>world = 2, stdout = [''> a'', ''ok'', ''> b x'', ''ok''],
         calls = [Check_output [''a''], Check_output [''b'', ''x'']]\<rparr>, Inr ())"
    using ok
      command_sequencer [where proc = all_succeed and cmds = "[[''a''], [''b'', ''x'']]"
        and s = start and kw = None
        and s' = "\<lparr>world = 2, stdout = [''> a'', ''ok'', ''> b x'', ''ok''],
                    calls = [Check_output [''a''], Check_output [''b'', ''x'']]\<rparr>",
        THEN conjunct2, THEN conjunct1]
    by (simp del: for_cmds.simps)
  note failing = command_sequencer [where proc = "fails_at 1"
        and cmds = "[[''a''], [''b'', ''x''], [''c'']]"
        and s = start and kw = None and pre = "[[''a'']]" and c = "[''b'', ''x'']"
        and post = "[[''c'']]"
        and ?s1.0 = "\<lparr>world = 1, stdout = [''> a'', ''ok''], calls = [Check_output [''a'']]\<rparr>"
        and ?s2.0 = "\<lparr>world = 2, stdout = [''> a'', ''ok'', ''> b x''],
                      calls = [Check_output [''a''], Check_output [''b'', ''x'']]\<rparr>"
        and e = "\<lparr>returncode = 1, cmd = [''b'', ''x''], output = Some ''boom''\<rparr>",
        THEN conjunct2, THEN conjunct2]
  have bad_run: "execute_sequence (fails_at 1) [[''a''], [''b'', ''x''], [''c'']] None start
     = (\<lparr>world = 2, stdout = [''> a'', ''ok'', ''> b x'', '' -> boom''],
         calls = [Check_output [''a''], Check_output [''b'', ''x'']]\<rparr>,
        Inl (CalledProcessError \<lparr>returncode = 1, cmd = [''b'', ''x''], output = Some ''boom''\<rparr>))"
    using split pre bad failing by (simp del: for_cmds.simps)
  show ?thesis
    by (intro conjI) (rule ok good_run split pre bad bad_run)+
qed

section \<open>What an error carries, and who runs the processes\<close>

text \<open>
  C6, as the code has it. A command run by the command runner that exits with a non-zero
  code raises a \<open>CalledProcessError\<close> with that code, the whole command (the program
  name first) and the captured output, and the sequencer raises on what its loop raised.
  An upload that exits with a non-zero code raises a \<open>CalledProcessError\<close> with that code
  and the command with the key overwritten, and with no captured output: \<open>check\<close> does not
  capture, and the new error is built from code and command alone.
\<close>

theorem error_payload:
  "(proc c (world s) = (Exited rc out, w) \<and> rc \<noteq> 0 \<longrightarrow>
      snd (execute proc c v s) =
        Inl (CalledProcessError \<lparr>returncode = rc, cmd = c, output = Some out\<rparr>))
   \<and> (for_cmds proc (case kw of None \<Rightarrow> True | Some b \<Rightarrow> b) cmds s = (s1, Inl err) \<longrightarrow>
        snd (execute_sequence proc cmds kw s) = Inl err)
   \<and> (proc [binstar home, ''-t'', key, ''upload'', ''--force'', ''-u'', user, ''-c'',
             channel, path] (world s) = (Exited rc out, w) \<and> rc \<noteq> 0 \<longrightarrow>
        snd (binstar_upload proc home key user channel path s) =
          Inl (CalledProcessError
                 \<lparr>returncode = rc,
                  cmd = [binstar home, ''-t'', ''BINSTAR_KEY'', ''upload'', ''--force'', ''-u'',
                         user, ''-c'', channel, path],
                  output = None\<rparr>))"
proof (intro conjI impI)
  assume "proc c (world s) = (Exited rc out, w) \<and> rc \<noteq> 0"
  then show "snd (execute proc c v s) =
        Inl (CalledProcessError \<lparr>returncode = rc, cmd = c, output = Some out\<rparr>)"
    using execute_exit [of proc c s rc out w v] by simp
next
  assume "for_cmds proc (case kw of None \<Rightarrow> True | Some b \<Rightarrow> b) cmds s = (s1, Inl err)"
  then show "snd (execute_sequence proc cmds kw s) = Inl err"
    by (cases err) (simp_all add: execute_sequence_def)
next
  assume "proc [binstar home, ''-t'', key, ''upload'', ''--force'', ''-u'', user, ''-c'',
             channel, path] (world s) = (Exited rc out, w) \<and> rc \<noteq> 0"
  then show "snd (binstar_upload proc home key user channel path s) =
          Inl (CalledProcessError
                 \<lparr>returncode = rc,
                  cmd = [binstar home, ''-t'', ''BINSTAR_KEY'', ''upload'', ''--force'', ''-u'',
                         user, ''-c'', channel, path],
                  output = None\<rparr>)"
    using binstar_upload_exit [of proc home key user channel path s rc out w] by simp
qed

theorem error_payload_witness:
  "(upload_rejected [''scp'', ''upload''] (world start) = (Exited 1 ''Unauthorized'', 1)
      \<and> (1 :: int) \<noteq> 0)
   \<and> snd (execute upload_rejected [''scp'', ''upload''] True start) =
        Inl (CalledProcessError
               \<lparr>returncode = 1, cmd = [''scp'', ''upload''], output = Some ''Unauthorized''\<rparr>)
   \<and> for_cmds upload_rejected True [[''scp'', ''upload'']] start =
        (\<lparr>world = 1, stdout = [''> scp upload''], calls = [Check_output [''scp'', ''upload'']]\<rparr>,
         Inl (CalledProcessError
               \<lparr>returncode = 1, cmd = [''scp'', ''upload''], output = Some ''Unauthorized''\<rparr>))
   \<and> snd (execute_sequence upload_rejected [[''scp'', ''upload'']] None start) =
        Inl (CalledProcessError
               \<lparr>returncode = 1, cmd = [''scp'', ''upload''], output = Some ''Unauthorized''\<rparr>)
   \<and> (upload_rejected [binstar ''/home/travis'', ''-t'', ''s3cret'', ''upload'', ''--force'', ''-u'',
                        ''alice'', ''-c'', ''main'', ''/pkg.tar.bz2''] (world start)
         = (Exited 1 ''Unauthorized'', 1) \<and> (1 :: int) \<noteq> 0)
   \<and> snd (binstar_upload upload_rejected ''/home/travis'' ''s3cret'' ''alice'' ''main''
             ''/pkg.tar.bz2'' start) =
        Inl (CalledProcessError
               \<lparr>returncode = 1,
                cmd = [binstar ''/home/travis'', ''-t'', ''BINSTAR_KEY'', ''upload'', ''--force'',
                       ''-u'', ''alice'', ''-c'', ''main'', ''/pkg.tar.bz2''],
                output = None\<rparr>)"
proof -
  have run1: "upload_rejected [''scp'', ''upload''] (world start) = (Exited 1 ''Unauthorized'', 1)
                \<and> (1 :: int) \<noteq> 0"
    by (simp add: upload_rejected_def start_def)
  have loop: "for_cmds upload_rejected True [[''scp'', ''upload'']] start =
        (\<lparr>world = 1, stdout = [''> scp upload''], calls = [Check_output [''scp'', ''upload'']]\<rparr>,
         Inl (CalledProcessError
               \<lparr>returncode = 1, cmd = [''scp'', ''upload''], output = Some ''Unauthorized''\<rparr>))"
    by (simp add: execute_def co_def upload_rejected_def print_def start_def Let_def)
  have run3: "upload_rejected [binstar ''/home/travis'', ''-t'', ''s3cret'', ''upload'', ''--force'',
                        ''-u'', ''alice'', ''-c'', ''main'', ''/pkg.tar.bz2''] (world start)
         = (Exited 1 ''Unauthorized'', 1) \<and> (1 :: int) \<noteq> 0"
    by (simp add: upload_rejected_def start_def)
  note inst = error_payload [of upload_rejected "[''scp'', ''upload'']" start 1 "''Unauthorized''" 1
      True None "[[''scp'', ''upload'']]"
      "\<lparr>world = 1, stdout = [''> scp upload''], calls = [Check_output [''scp'', ''upload'']]\<rparr>"
      "CalledProcessError
         \<lparr>returncode = 1, cmd = [''scp'', ''upload''], output = Some ''Unauthorized''\<rparr>"
      "''/home/travis''" "''s3cret''" "''alice''" "''main''" "''/pkg.tar.bz2''"]
  have r1: "snd (execute upload_rejected [''scp'', ''upload''] True start) =
        Inl (CalledProcessError
               \<lparr>returncode = 1, cmd = [''scp'', ''upload''], output = Some ''Unauthorized''\<rparr>)"
    by (rule inst [THEN conjunct1, THEN mp, OF run1])
  have r2: "snd (execute_sequence upload_rejected [[''scp'', ''upload'']] None start) =
        Inl (CalledProcessError
               \<lparr>returncode = 1, cmd = [''scp'', ''upload''], output = Some ''Unauthorized''\<rparr>)"
    using loop inst [THEN conjunct2, THEN conjunct1] by (simp del: for_cmds.simps)
  have r3: "snd (binstar_upload upload_rejected ''/home/travis'' ''s3cret'' ''alice'' ''main''
             ''/pkg.tar.bz2'' start) =
        Inl (CalledProcessError
               \<lparr>returncode = 1,
                cmd = [binstar ''/home/travis'', ''-t'', ''BINSTAR_KEY'', ''upload'', ''--force'',
                       ''-u'', ''alice'', ''-c'', ''main'', ''/pkg.tar.bz2''],
                output = None\<rparr>)"
    by (rule inst [THEN conjunct2, THEN conjunct2, THEN mp, OF run3])
  show ?thesis
    by (intro conjI) (rule run1 [THEN conjunct1] run1 [THEN conjunct2] r1 loop r2
          run3 [THEN conjunct1] r3)+
qed

text \<open>
  The claim as the specification states it fails for the upload: the process wrote
  \<open>Unauthorized\<close> and was run with the key, and the error that surfaces has no output and
  not the argument list that was run.
\<close>

theorem error_payload_counterexample:
  "upload_rejected [''/home/travis/miniconda/bin/binstar'', ''-t'', ''s3cret'', ''upload'',
                    ''--force'', ''-u'', ''alice'', ''-c'', ''main'', ''/pkg.tar.bz2''] 0
     = (Exited 1 ''Unauthorized'', 1)
   \<and> binstar_upload upload_rejected ''/home/travis'' ''s3cret'' ''alice'' ''main''
        ''/pkg.tar.bz2'' start
     = (\<lparr>world = 1, stdout = [''Unauthorized''],
         calls = [Check_call [''/home/travis/miniconda/bin/binstar'', ''-t'', ''s3cret'',
                              ''upload'', ''--force'', ''-u'', ''alice'', ''-c'', ''main'',
                              ''/pkg.tar.bz2'']]\<rparr>,
        Inl (CalledProcessError
               \<lparr>returncode = 1,
                cmd = [''/home/travis/miniconda/bin/binstar'', ''-t'', ''BINSTAR_KEY'',
                       ''upload'', ''--force'', ''-u'', ''alice'', ''-c'', ''main'',
                       ''/pkg.tar.bz2''],
                output = None\<rparr>))"
  by (simp add: binstar_upload_def check_def upload_rejected_def start_def binstar_eq
        rstrip_slash_def Let_def)

text \<open>
  C7, as the code has it. The command runner captures the output of the child and returns
  it, and its call is a \<open>check_output\<close>; every call that provisioning and building make
  is such a call of the runner. The upload is not: \<open>binstar_upload\<close> calls \<open>check\<close>
  itself, one \<open>check_call\<close> with the upload command, whose output goes to the standard
  output of the script uncaptured and whose success value is nothing.
\<close>

theorem execution_substrate:
  "(proc c (world s) = (Exited 0 out, w) \<longrightarrow> snd (execute proc c v s) = Inr out)
   \<and> calls (fst (execute proc c v s)) = calls s @ [Check_output c]
   \<and> (\<exists>cs. calls (fst (setup_miniconda proc home ns url ch s)) = calls s @ map Check_output cs)
   \<and> (\<exists>cs. calls (fst (build proc home path s)) = calls s @ map Check_output cs)
   \<and> calls (fst (binstar_upload proc home key user channel pkg s)) =
       calls s @ [Check_call [binstar home, ''-t'', key, ''upload'', ''--force'', ''-u'', user,
                              ''-c'', channel, pkg]]
   \<and> (proc [binstar home, ''-t'', key, ''upload'', ''--force'', ''-u'', user, ''-c'',
             channel, pkg] (world s) = (Exited 0 out, w) \<longrightarrow>
        binstar_upload proc home key user channel pkg s =
          (s\<lparr>world := w, stdout := stdout s @ [out],
             calls := calls s @ [Check_call [binstar home, ''-t'', key, ''upload'', ''--force'',
                                             ''-u'', user, ''-c'', channel, pkg]]\<rparr>, Inr ()))"
proof (intro conjI impI)
  assume "proc c (world s) = (Exited 0 out, w)"
  then show "snd (execute proc c v s) = Inr out"
    using execute_exit [of proc c s 0 out w v] by simp
next
  show "calls (fst (execute proc c v s)) = calls s @ [Check_output c]"
    by (rule execute_calls)
next
  show "\<exists>cs. calls (fst (setup_miniconda proc home ns url ch s)) = calls s @ map Check_output cs"
    by (rule setup_miniconda_calls)
next
  show "\<exists>cs. calls (fst (build proc home path s)) = calls s @ map Check_output cs"
    by (rule build_calls)
next
  show "calls (fst (binstar_upload proc home key user channel pkg s)) =
       calls s @ [Check_call [binstar home, ''-t'', key, ''upload'', ''--force'', ''-u'', user,
                              ''-c'', channel, pkg]]"
    by (rule binstar_upload_calls)
next
  assume "proc [binstar home, ''-t'', key, ''upload'', ''--force'', ''-u'', user, ''-c'',
             channel, pkg] (world s) = (Exited 0 out, w)"
  then show "binstar_upload proc home key user channel pkg s =
          (s\<lparr>world := w, stdout := stdout s @ [out],
             calls := calls s @ [Check_call [binstar home, ''-t'', key, ''upload'', ''--force'',
                                             ''-u'', user, ''-c'', channel, pkg]]\<rparr>, Inr ())"
    using check_exit [of proc "[binstar home, ''-t'', key, ''upload'', ''--force'', ''-u'', user,
                              ''-c'', channel, pkg]" s 0 out w]
    by (simp add: binstar_upload_def)
qed

theorem execution_substrate_witness:
  "all_succeed [''conda'', ''build''] (world start) = (Exited 0 ''ok'', 1)
   \<and> snd (execute all_succeed [''conda'', ''build''] True start) = Inr ''ok''
   \<and> all_succeed [binstar ''/home/travis'', ''-t'', ''s3cret'', ''upload'', ''--force'', ''-u'',
                   ''alice'', ''-c'', ''main'', ''/pkg.tar.bz2''] (world start)
       = (Exited 0 ''ok'', 1)
   \<and> binstar_upload all_succeed ''/home/travis'' ''s3cret'' ''alice'' ''main'' ''/pkg.tar.bz2'' start
       = (start\<lparr>world := 1, stdout := stdout start @ [''ok''],
                 calls := calls start @ [Check_call [binstar ''/home/travis'', ''-t'', ''s3cret'',
                    ''upload'', ''--force'', ''-u'', ''alice'', ''-c'', ''main'',
                    ''/pkg.tar.bz2'']]\<rparr>, Inr ())"
proof -
  have run1: "all_succeed [''conda'', ''build''] (world start) = (Exited 0 ''ok'', 1)"
    by (simp add: all_succeed_def start_def)
  have run2: "all_succeed [binstar ''/home/travis'', ''-t'', ''s3cret'', ''upload'', ''--force'',
                   ''-u'', ''alice'', ''-c'', ''main'', ''/pkg.tar.bz2''] (world start)
       = (Exited 0 ''ok'', 1)"
    by (simp add: all_succeed_def start_def)
  note inst = execution_substrate [of all_succeed "[''conda'', ''build'']" start "''ok''" 1 True
      "''/home/travis''" "Some setup_args" "''http://x/installer.sh''" None "Some ''/pkg''"
      "''s3cret''" "''alice''" "''main''" "''/pkg.tar.bz2''"]
  have r1: "snd (execute all_succeed [''conda'', ''build''] True start) = Inr ''ok''"
    by (rule inst [THEN conjunct1, THEN mp, OF run1])
  have r2: "binstar_upload all_succeed ''/home/travis'' ''s3cret'' ''alice'' ''main''
              ''/pkg.tar.bz2'' start
       = (start\<lparr>world := 1, stdout := stdout start @ [''ok''],
                 calls := calls start @ [Check_call [binstar ''/home/travis'', ''-t'', ''s3cret'',
                    ''upload'', ''--force'', ''-u'', ''alice'', ''-c'', ''main'',
                    ''/pkg.tar.bz2'']]\<rparr>, Inr ())"
    by (rule inst [THEN conjunct2, THEN conjunct2, THEN conjunct2, THEN conjunct2,
                   THEN conjunct2, THEN mp, OF run2])
  show ?thesis
    by (intro conjI) (rule run1 r1 run2 r2)+
qed

text \<open>
  The claim as the specification states it fails for the upload: the same command goes
  through \<open>check_call\<close> with nothing captured and nothing returned, where the command
  runner would have made a \<open>check_output\<close> call and returned the output.
\<close>

theorem execution_substrate_counterexample:
  "binstar_upload all_succeed ''/home/travis'' ''s3cret'' ''alice'' ''main'' ''/pkg.tar.bz2'' start
     = (\<lparr>world = 1, stdout = [''ok''],
         calls = [Check_call [''/home/travis/miniconda/bin/binstar'', ''-t'', ''s3cret'',
                              ''upload'', ''--force'', ''-u'', ''alice'', ''-c'', ''main'',
                              ''/pkg.tar.bz2'']]\<rparr>, Inr ())
   \<and> execute all_succeed [''/home/travis/miniconda/bin/binstar'', ''-t'', ''s3cret'',
                           ''upload'', ''--force'', ''-u'', ''alice'', ''-c'', ''main'',
                           ''/pkg.tar.bz2''] False start
     = (\<lparr>world = 1, stdout = [],
         calls = [Check_output [''/home/travis/miniconda/bin/binstar'', ''-t'', ''s3cret'',
                                ''upload'', ''--force'', ''-u'', ''alice'', ''-c'', ''main'',
                                ''/pkg.tar.bz2'']]\<rparr>, Inr ''ok'')"
  by (simp add: binstar_upload_def check_def execute_def co_def all_succeed_def start_def
        binstar_eq rstrip_slash_def Let_def)

section \<open>The environment provisioner\<close>

text \<open>
  C8. With \<open>ns\<close> bound, the provisioner hands the sequencer exactly this list: the
  download of the installer to \<open>miniconda.sh\<close>, the installer in batch mode into
  \<open>miniconda\<close> under the home directory, the quiet update of conda, the quiet install of
  the three plugins, and, last, the registration of the channel exactly when one is
  given. Without a channel it prints that all dependencies have to come from anaconda.
  When the run succeeds, the calls made are the commands of that list, in that order.
\<close>

theorem environment_provisioner:
  "setup_miniconda proc home (Some n) url None s =
     execute_sequence proc
       [[''wget'', ''-nv'', url, ''-O'', ''miniconda.sh''],
        [''python'', ''miniconda.sh'', ''-b'', ''-p'', rstrip_slash home @ ''/miniconda''],
        [rstrip_slash home @ ''/miniconda/bin/conda'', ''update'', ''-q'', ''--yes'', ''conda''],
        [rstrip_slash home @ ''/miniconda/bin/conda'', ''install'', ''-q'', ''--yes'',
         ''conda-build'', ''jinja2'', ''binstar'']]
       None
       (print ''No channels have been configured (all dependencies have to be sourceble from anaconda)''
          (print (''Setting up miniconda from URL '' @ format_opt (ns_path n)) s))
   \<and> setup_miniconda proc home (Some n) url (Some ch) s =
     execute_sequence proc
       [[''wget'', ''-nv'', url, ''-O'', ''miniconda.sh''],
        [''python'', ''miniconda.sh'', ''-b'', ''-p'', rstrip_slash home @ ''/miniconda''],
        [rstrip_slash home @ ''/miniconda/bin/conda'', ''update'', ''-q'', ''--yes'', ''conda''],
        [rstrip_slash home @ ''/miniconda/bin/conda'', ''install'', ''-q'', ''--yes'',
         ''conda-build'', ''jinja2'', ''binstar''],
        [rstrip_slash home @ ''/miniconda/bin/conda'', ''config'', ''--add'', ''channels'', ch]]
       None
       (print (''(adding channel '' @ [CHR 0x27] @ ch @ [CHR 0x27] @ '' for dependencies)'')
          (print (''Setting up miniconda from URL '' @ format_opt (ns_path n)) s))
   \<and> (snd (setup_miniconda proc home (Some n) url channel s) = Inr () \<longrightarrow>
        calls (fst (setup_miniconda proc home (Some n) url channel s)) =
          calls s @ map Check_output
            ([[''wget'', ''-nv'', url, ''-O'', ''miniconda.sh''],
              [''python'', ''miniconda.sh'', ''-b'', ''-p'', rstrip_slash home @ ''/miniconda''],
              [rstrip_slash home @ ''/miniconda/bin/conda'', ''update'', ''-q'', ''--yes'', ''conda''],
              [rstrip_slash home @ ''/miniconda/bin/conda'', ''install'', ''-q'', ''--yes'',
               ''conda-build'', ''jinja2'', ''binstar'']]
             @ (case channel of None \<Rightarrow> []
                | Some ch \<Rightarrow> [[rstrip_slash home @ ''/miniconda/bin/conda'', ''config'', ''--add'',
                               ''channels'', ch]])))"
proof (intro conjI impI)
  show "setup_miniconda proc home (Some n) url None s =
     execute_sequence proc
       [[''wget'', ''-nv'', url, ''-O'', ''miniconda.sh''],
        [''python'', ''miniconda.sh'', ''-b'', ''-p'', rstrip_slash home @ ''/miniconda''],
        [rstrip_slash home @ ''/miniconda/bin/conda'', ''update'', ''-q'', ''--yes'', ''conda''],
        [rstrip_slash home @ ''/miniconda/bin/conda'', ''install'', ''-q'', ''--yes'',
         ''conda-build'', ''jinja2'', ''binstar'']]
       None
       (print ''No channels have been configured (all dependencies have to be sourceble from anaconda)''
          (print (''Setting up miniconda from URL '' @ format_opt (ns_path n)) s))"
    by (rule setup_miniconda_unchannelled)
  show "setup_miniconda proc home (Some n) url (Some ch) s =
     execute_sequence proc
       [[''wget'', ''-nv'', url, ''-O'', ''miniconda.sh''],
        [''python'', ''miniconda.sh'', ''-b'', ''-p'', rstrip_slash home @ ''/miniconda''],
        [rstrip_slash home @ ''/miniconda/bin/conda'', ''update'', ''-q'', ''--yes'', ''conda''],
        [rstrip_slash home @ ''/miniconda/bin/conda'', ''install'', ''-q'', ''--yes'',
         ''conda-build'', ''jinja2'', ''binstar''],
        [rstrip_slash home @ ''/miniconda/bin/conda'', ''config'', ''--add'', ''channels'', ch]]
       None
       (print (''(adding channel '' @ [CHR 0x27] @ ch @ [CHR 0x27] @ '' for dependencies)'')
          (print (''Setting up miniconda from URL '' @ format_opt (ns_path n)) s))"
    by (rule setup_miniconda_channelled)
  assume ok: "snd (setup_miniconda proc home (Some n) url channel s) = Inr ()"
  let ?base = "[[''wget'', ''-nv'', url, ''-O'', ''miniconda.sh''],
              [''python'', ''miniconda.sh'', ''-b'', ''-p'', rstrip_slash home @ ''/miniconda''],
              [rstrip_slash home @ ''/miniconda/bin/conda'', ''update'', ''-q'', ''--yes'', ''conda''],
              [rstrip_slash home @ ''/miniconda/bin/conda'', ''install'', ''-q'', ''--yes'',
               ''conda-build'', ''jinja2'', ''binstar'']]"
  let ?hdr = "print (''Setting up miniconda from URL '' @ format_opt (ns_path n)) s"
  show "calls (fst (setup_miniconda proc home (Some n) url channel s)) =
          calls s @ map Check_output
            (?base
             @ (case channel of None \<Rightarrow> []
                | Some ch \<Rightarrow> [[rstrip_slash home @ ''/miniconda/bin/conda'', ''config'', ''--add'',
                               ''channels'', ch]]))"
  proof (cases channel)
    case None
    let ?s0 = "print ''No channels have been configured (all dependencies have to be sourceble from anaconda)'' ?hdr"
    have eq: "setup_miniconda proc home (Some n) url channel s
                = execute_sequence proc ?base None ?s0"
      unfolding None by (rule setup_miniconda_unchannelled)
    obtain s' r where e: "execute_sequence proc ?base None ?s0 = (s', r)"
      by (cases "execute_sequence proc ?base None ?s0")
    with ok eq have r: "r = Inr ()" by simp
    have "calls s' = calls ?s0 @ map Check_output ?base"
      using e unfolding r by (rule execute_sequence_ok_calls)
    then have "calls (fst (setup_miniconda proc home (Some n) url channel s))
                 = calls s @ map Check_output ?base"
      unfolding eq e by (simp add: print_simps)
    then show ?thesis unfolding None by simp
  next
    case (Some c)
    let ?all = "?base @ [[rstrip_slash home @ ''/miniconda/bin/conda'', ''config'', ''--add'',
                               ''channels'', c]]"
    let ?s0 = "print (''(adding channel '' @ [CHR 0x27] @ c @ [CHR 0x27] @ '' for dependencies)'') ?hdr"
    have eq: "setup_miniconda proc home (Some n) url channel s
                = execute_sequence proc ?all None ?s0"
      unfolding Some using setup_miniconda_channelled [of proc home n url c s] by simp
    obtain s' r where e: "execute_sequence proc ?all None ?s0 = (s', r)"
      by (cases "execute_sequence proc ?all None ?s0")
    with ok eq have r: "r = Inr ()" by simp
    have "calls s' = calls ?s0 @ map Check_output ?all"
      using e unfolding r by (rule execute_sequence_ok_calls)
    then have "calls (fst (setup_miniconda proc home (Some n) url channel s))
                 = calls s @ map Check_output ?all"
      unfolding eq e by (simp add: print_simps)
    then show ?thesis unfolding Some by simp
  qed
qed

lemma for_cmds_all_succeed: "snd (for_cmds all_succeed v cs s) = Inr ()"
  by (induction cs arbitrary: s)
     (simp_all add: execute_def co_def all_succeed_def Let_def split: prod.splits)

lemma execute_sequence_all_succeed: "snd (execute_sequence all_succeed cs kw s) = Inr ()"
proof -
  let ?v = "case kw of None \<Rightarrow> True | Some b \<Rightarrow> b"
  obtain s' where "for_cmds all_succeed ?v cs s = (s', Inr ())"
    using for_cmds_all_succeed [of ?v cs s] by (cases "for_cmds all_succeed ?v cs s") simp
  then show ?thesis by (simp add: execute_sequence_def)
qed

theorem environment_provisioner_witness:
  "snd (setup_miniconda all_succeed ''/home/travis/'' (Some setup_args) ''http://x/installer.sh''
          None start) = Inr ()
   \<and> calls (fst (setup_miniconda all_succeed ''/home/travis/'' (Some setup_args)
                   ''http://x/installer.sh'' None start)) =
       [Check_output [''wget'', ''-nv'', ''http://x/installer.sh'', ''-O'', ''miniconda.sh''],
        Check_output [''python'', ''miniconda.sh'', ''-b'', ''-p'', ''/home/travis/miniconda''],
        Check_output [''/home/travis/miniconda/bin/conda'', ''update'', ''-q'', ''--yes'', ''conda''],
        Check_output [''/home/travis/miniconda/bin/conda'', ''install'', ''-q'', ''--yes'',
                      ''conda-build'', ''jinja2'', ''binstar'']]"
proof -
  have ok: "snd (setup_miniconda all_succeed ''/home/travis/'' (Some setup_args)
                  ''http://x/installer.sh'' None start) = Inr ()"
    unfolding setup_miniconda_unchannelled by (rule execute_sequence_all_succeed)
  have "calls (fst (setup_miniconda all_succeed ''/home/travis/'' (Some setup_args)
                   ''http://x/installer.sh'' None start)) =
        calls start @ map Check_output
            ([[''wget'', ''-nv'', ''http://x/installer.sh'', ''-O'', ''miniconda.sh''],
              [''python'', ''miniconda.sh'', ''-b'', ''-p'',
               rstrip_slash ''/home/travis/'' @ ''/miniconda''],
              [rstrip_slash ''/home/travis/'' @ ''/miniconda/bin/conda'', ''update'', ''-q'',
               ''--yes'', ''conda''],
              [rstrip_slash ''/home/travis/'' @ ''/miniconda/bin/conda'', ''install'', ''-q'',
               ''--yes'', ''conda-build'', ''jinja2'', ''binstar'']]
             @ (case None of None \<Rightarrow> []
                | Some ch \<Rightarrow> [[rstrip_slash ''/home/travis/'' @ ''/miniconda/bin/conda'',
                               ''config'', ''--add'', ''channels'', ch]]))"
    by (rule environment_provisioner [of all_succeed "''/home/travis/''" setup_args
          "''http://x/installer.sh''" start "''unused''" None,
          THEN conjunct2, THEN conjunct2, THEN mp, OF ok])
  then have "calls (fst (setup_miniconda all_succeed ''/home/travis/'' (Some setup_args)
                   ''http://x/installer.sh'' None start)) =
       [Check_output [''wget'', ''-nv'', ''http://x/installer.sh'', ''-O'', ''miniconda.sh''],
        Check_output [''python'', ''miniconda.sh'', ''-b'', ''-p'', ''/home/travis/miniconda''],
        Check_output [''/home/travis/miniconda/bin/conda'', ''update'', ''-q'', ''--yes'', ''conda''],
        Check_output [''/home/travis/miniconda/bin/conda'', ''install'', ''-q'', ''--yes'',
                      ''conda-build'', ''jinja2'', ''binstar'']]"
    by (simp add: rstrip_slash_def start_def)
  with ok show ?thesis by (rule conjI)
qed

section \<open>The entry point\<close>

text \<open>
  C9. In setup mode without \<open>--url\<close> the entry point raises the \<open>ValueError\<close> with
  nothing printed and no command run, and the exit status is not 0; with \<open>--url\<close> it is
  \<open>setup_miniconda\<close> on that URL and on the channel, given or not.
\<close>

theorem entry_point_validation:
  assumes "ns_mode n = ''setup''"
  shows "(ns_url n = None \<longrightarrow>
            main proc home env bldpkg n s =
              (s, Inl (ValueError ''You must provide a miniconda URL for the setup command''))
            \<and> exit_status (snd (main proc home env bldpkg n s)) \<noteq> 0)
       \<and> (ns_url n = Some u \<longrightarrow>
            main proc home env bldpkg n s = setup_miniconda proc home (Some n) u (ns_channel n) s)"
  using assms by (simp add: main_def exit_status_def)

theorem entry_point_validation_witness:
  "ns_mode (setup_args\<lparr>ns_url := None\<rparr>) = ''setup''
   \<and> ns_url (setup_args\<lparr>ns_url := None\<rparr>) = None
   \<and> main all_succeed ''/home/travis'' Map.empty pkg_path (setup_args\<lparr>ns_url := None\<rparr>) start
       = (start, Inl (ValueError ''You must provide a miniconda URL for the setup command''))
   \<and> exit_status (snd (main all_succeed ''/home/travis'' Map.empty pkg_path
                          (setup_args\<lparr>ns_url := None\<rparr>) start)) \<noteq> 0
   \<and> ns_mode setup_args = ''setup''
   \<and> ns_url setup_args = Some ''http://x/installer.sh''
   \<and> main all_succeed ''/home/travis'' Map.empty pkg_path setup_args start
       = setup_miniconda all_succeed ''/home/travis'' (Some setup_args) ''http://x/installer.sh''
           (ns_channel setup_args) start"
proof -
  have m1: "ns_mode (setup_args\<lparr>ns_url := None\<rparr>) = ''setup''"
    by (simp add: setup_args_def)
  have u1: "ns_url (setup_args\<lparr>ns_url := None\<rparr>) = None"
    by simp
  have m2: "ns_mode setup_args = ''setup''"
    by (simp add: setup_args_def)
  have u2: "ns_url setup_args = Some ''http://x/installer.sh''"
    by (simp add: setup_args_def)
  note absent = entry_point_validation [where n = "setup_args\<lparr>ns_url := None\<rparr>"
      and u = "''unused''" and proc = all_succeed and home = "''/home/travis''"
      and env = Map.empty and bldpkg = pkg_path and s = start, OF m1,
      THEN conjunct1, THEN mp, OF u1]
  note present = entry_point_validation [where n = setup_args
      and u = "''http://x/installer.sh''" and proc = all_succeed and home = "''/home/travis''"
      and env = Map.empty and bldpkg = pkg_path and s = start, OF m2,
      THEN conjunct2, THEN mp, OF u2]
  show ?thesis
    by (intro conjI) (rule m1 u1 absent [THEN conjunct1] absent [THEN conjunct2] m2 u2 present)+
qed

section \<open>The global namespace\<close>

text \<open>
  C10. Provisioning and build-and-upload read the global \<open>ns\<close> first: with \<open>ns\<close> unbound
  both raise \<open>NameError\<close> with nothing printed and no command run. With \<open>ns\<close> bound, the
  first line that the provisioner prints ends in \<open>ns.path\<close>, whatever the URL it was given:
  in \<open>None\<close> when \<open>--path\<close> was not given.
\<close>

theorem global_namespace_read:
  "setup_miniconda proc home None url channel s = (s, Inl (NameError ''ns''))
   \<and> build_and_upload proc home env bldpkg None path user key s = (s, Inl (NameError ''ns''))
   \<and> (\<exists>rest. stdout (fst (setup_miniconda proc home (Some n) url channel s)) =
         stdout s @ (''Setting up miniconda from URL '' @ format_opt (ns_path n)) # rest)
   \<and> (\<exists>rest. stdout (fst (setup_miniconda proc home (Some (n\<lparr>ns_path := None\<rparr>)) url channel s)) =
         stdout s @ ''Setting up miniconda from URL None'' # rest)"
proof -
  have base: "\<exists>rest. stdout (fst (setup_miniconda proc home (Some m) url channel s)) =
         stdout s @ (''Setting up miniconda from URL '' @ format_opt (ns_path m)) # rest" for m
  proof -
    let ?hdr = "print (''Setting up miniconda from URL '' @ format_opt (ns_path m)) s"
    have "\<exists>cs line. setup_miniconda proc home (Some m) url channel s
                      = execute_sequence proc cs None (print line ?hdr)"
    proof (cases channel)
      case None
      show ?thesis unfolding None setup_miniconda_unchannelled by blast
    next
      case (Some ch)
      show ?thesis unfolding Some setup_miniconda_channelled by blast
    qed
    then obtain cs line
      where eq: "setup_miniconda proc home (Some m) url channel s
                   = execute_sequence proc cs None (print line ?hdr)"
      by blast
    obtain rest where "stdout (fst (execute_sequence proc cs None (print line ?hdr)))
                         = stdout (print line ?hdr) @ rest"
      using execute_sequence_stdout by blast
    with eq show ?thesis by (simp add: print_simps)
  qed
  have "\<exists>rest. stdout (fst (setup_miniconda proc home (Some (n\<lparr>ns_path := None\<rparr>)) url channel s)) =
         stdout s @ ''Setting up miniconda from URL None'' # rest"
    using base [of "n\<lparr>ns_path := None\<rparr>"] by (simp add: format_opt_def)
  with base [of n] show ?thesis
    by (simp add: setup_miniconda_def build_and_upload_def)
qed

theorem global_namespace_read_witness:
  "setup_miniconda all_succeed ''/home/travis'' None ''http://x/installer.sh'' None start
     = (start, Inl (NameError ''ns''))
   \<and> build_and_upload all_succeed ''/home/travis'' (travis_env ''false'' ''master'' [])
        pkg_path None (Some ''/pkg'') (Some ''alice'') (Some ''s3cret'') start
     = (start, Inl (NameError ''ns''))"
  using global_namespace_read [of all_succeed "''/home/travis''" "''http://x/installer.sh''"
      None start "travis_env ''false'' ''master'' []" pkg_path "Some ''/pkg''" "Some ''alice''"
      "Some ''s3cret''" setup_args]
  by blast

end
